theory Spec2Isabelle
  imports Main "HOL-Library.Word" "HOL-Library.Multiset"
begin

section \<open>aw-server: the REST handlers of \<^verbatim>\<open>aw_server/api.py\<close>\<close>

text \<open>
  The module keeps three pieces of process-wide state: the session map of the
  \<^verbatim>\<open>SessionManager\<close>, the datastore \<^verbatim>\<open>app.db\<close> and the dictionary \<^verbatim>\<open>heartbeats\<close>.
  Each handler is a function from the state (and what it reads from its surroundings:
  the flask request, the clock, the operating system's random bytes) to the new state
  and the value returned or the exception raised.
\<close>

subsection \<open>Data\<close>

datatype error = NotFound | NotImplementedError | TypeError

text \<open>
  What a handler returns: a bare value (\<^verbatim>\<open>return x\<close>) or a value with a status
  (\<^verbatim>\<open>return x, 200\<close>). flask_restful answers a bare value with status 200.
\<close>

datatype 'a response = Response 'a | ResponseStatus 'a nat

fun body :: "'a response \<Rightarrow> 'a" where
  "body (Response x) = x"
| "body (ResponseStatus x _) = x"

fun status_code :: "'a response \<Rightarrow> nat" where
  "status_code (Response _) = 200"
| "status_code (ResponseStatus _ s) = s"

text \<open>A value of Python's \<^verbatim>\<open>datetime\<close>, as \<^verbatim>\<open>datetime.now()\<close> returns it.\<close>

record datetime =
  year :: nat
  month :: nat
  day :: nat
  hour :: nat
  minute :: nat
  second :: nat
  microsecond :: nat

definition digit :: "nat \<Rightarrow> char" where
  "digit n = ''0123456789'' ! (n mod 10)"

definition pad2 :: "nat \<Rightarrow> string" where
  "pad2 n = [digit (n div 10), digit n]"

definition pad4 :: "nat \<Rightarrow> string" where
  "pad4 n = pad2 (n div 100) @ pad2 n"

definition pad6 :: "nat \<Rightarrow> string" where
  "pad6 n = pad2 (n div 10000) @ pad4 n"

definition isoformat :: "datetime \<Rightarrow> string" where
  "isoformat t =
     pad4 (year t) @ ''-'' @ pad2 (month t) @ ''-'' @ pad2 (day t) @ ''T'' @
     pad2 (hour t) @ '':'' @ pad2 (minute t) @ '':'' @ pad2 (second t) @
     (if microsecond t = 0 then [] else ''.'' @ pad6 (microsecond t))"

text \<open>
  Modelled from the spec: the event of the data model (section 3), which no file of
  the sources declares: an optional id given by the store, a timestamp (an absolute
  point in time, here a count of milliseconds), a duration and the data, a mapping of
  string keys to scalars that the store never looks into.
\<close>

datatype scalar = SStr string | SNum int | SBool bool | SNull

record event =
  event_id :: "nat option"
  timestamp :: int
  duration :: int
  event_data :: "(string \<times> scalar) list"

text \<open>
  The decoded body of a request, \<^verbatim>\<open>request.get_json()\<close>, as far as the handlers tell
  its shapes apart with \<^verbatim>\<open>isinstance\<close>: a dict (one event), a list (of events) or a
  scalar. What the
  datastore does with a list element that is not an event is not in the sources; the
  elements of a list are events here.
\<close>

datatype json = JDict event | JList "event list" | JStr string | JNum int | JBool bool | JNull

fun isinstance_dict :: "json \<Rightarrow> bool" where
  "isinstance_dict (JDict _) = True"
| "isinstance_dict _ = False"

fun isinstance_list :: "json \<Rightarrow> bool" where
  "isinstance_list (JList _) = True"
| "isinstance_list _ = False"

text \<open>
  flask's \<^verbatim>\<open>request\<close> is a global every handler can read: the decoded body and the
  parameters of the query string. The model hands it to each handler.
\<close>

record request =
  get_json :: json
  args :: "(string \<times> string) list"

text \<open>
  Modelled from the spec: the bucket of the data model (section 3): its id, its event
  type and its events, in the order of their insertion. The datastore behind
  \<^verbatim>\<open>app.db\<close> is not among the sources.
\<close>

record bucket =
  b_id :: string
  event_type :: string
  events :: "event list"

text \<open>The value of \<^verbatim>\<open>self._sessions[session_id]\<close>: the dict \<^verbatim>\<open>{"session_key": session_key}\<close>.\<close>

record session =
  session_key :: string

record state =
  sessions :: "string \<rightharpoonup> session"
  db :: "string \<rightharpoonup> bucket"
  heartbeats :: "string \<rightharpoonup> datetime"
  entropy :: "nat \<Rightarrow> 8 word"

subsection \<open>The datastore, as the handlers use it\<close>

text \<open>
  Modelled from the spec: \<^verbatim>\<open>app.db[bucket_id]\<close>, the datastore's lookup, which is not
  among the sources. A bucket must exist before a call arrives; an unknown bucket id
  fails with \<^verbatim>\<open>NotFound\<close> (sections 3, 4.1 and 7).
\<close>

definition db_getitem :: "(string \<rightharpoonup> bucket) \<Rightarrow> string \<Rightarrow> error + bucket" where
  "db_getitem d bucket_id =
     (case d bucket_id of None \<Rightarrow> Inl NotFound | Some b \<Rightarrow> Inr b)"

text \<open>
  Modelled from the spec: the bucket's \<^verbatim>\<open>metadata()\<close>, not among the sources: what section
  3 lists for a bucket besides its events.
\<close>

definition Bucket_metadata :: "bucket \<Rightarrow> (string \<times> string) list" where
  "Bucket_metadata b = [(''id'', b_id b), (''event_type'', event_type b)]"

text \<open>
  Modelled from the spec: the bucket's \<^verbatim>\<open>get()\<close> called without arguments, not among the
  sources. Section 4.1: the events sorted by timestamp, descending (most recent first);
  without a range nothing is filtered out and without a limit nothing is cut off.
\<close>

definition Bucket_get :: "bucket \<Rightarrow> event list" where
  "Bucket_get b = sort_key (\<lambda>e. - timestamp e) (events b)"

text \<open>
  Modelled from the spec: the bucket's \<^verbatim>\<open>insert(event)\<close>, not among the sources. Section
  4.1: it assigns an id if the event has none and appends the event. The assigned id
  is one more than every id in the bucket.
\<close>

definition fresh_id :: "event list \<Rightarrow> nat" where
  "fresh_id es = fold (\<lambda>e n. case event_id e of None \<Rightarrow> n | Some i \<Rightarrow> max n (Suc i)) es 0"

definition stored_event :: "event list \<Rightarrow> event \<Rightarrow> event" where
  "stored_event es e =
     (case event_id e of None \<Rightarrow> e\<lparr>event_id := Some (fresh_id es)\<rparr> | Some _ \<Rightarrow> e)"

definition Bucket_insert :: "event \<Rightarrow> bucket \<Rightarrow> bucket" where
  "Bucket_insert e b = b\<lparr>events := events b @ [stored_event (events b) e]\<rparr>"

subsection \<open>Sessions\<close>

definition SECURITY_ENABLED :: bool where
  "SECURITY_ENABLED = False"

text \<open>
  \<^verbatim>\<open>os.urandom(n)\<close>: the next \<open>n\<close> bytes of the operating system's random source, which
  are then used up.
\<close>

definition os_urandom :: "nat \<Rightarrow> state \<Rightarrow> 8 word list \<times> state" where
  "os_urandom n st = (map (entropy st) [0..<n], st\<lparr>entropy := (\<lambda>i. entropy st (i + n))\<rparr>)"

definition hexdigit :: "nat \<Rightarrow> char" where
  "hexdigit n = ''0123456789abcdef'' ! (n mod 16)"

text \<open>\<^verbatim>\<open>binascii.hexlify(bs).decode("utf8")\<close>: two lower-case hexadecimal digits a byte.\<close>

fun hexlify :: "8 word list \<Rightarrow> string" where
  "hexlify [] = []"
| "hexlify (b # bs) = hexdigit (unat b div 16) # hexdigit (unat b) # hexlify bs"

definition start_session :: "state \<Rightarrow> string \<Rightarrow> string \<times> state" where
  "start_session st session_id =
     (let (bytes, st1) = os_urandom 24 st;
          key = hexlify bytes
      in (key, st1\<lparr>sessions := (sessions st1)(session_id \<mapsto> \<lparr>session_key = key\<rparr>)\<rparr>))"

text \<open>
  \<^verbatim>\<open>verify_session\<close> reads the module's flag; the flag is the first argument here, and
  \<open>verify_session\<close> is the function with the flag as the module sets it.
\<close>

definition verify_session_flag :: "bool \<Rightarrow> state \<Rightarrow> string \<Rightarrow> string \<Rightarrow> bool" where
  "verify_session_flag security_enabled st session_id key =
     (if security_enabled then
        (case sessions st session_id of
           None \<Rightarrow> False
         | Some s \<Rightarrow> session_key s = key)
      else True)"

definition verify_session :: "state \<Rightarrow> string \<Rightarrow> string \<Rightarrow> bool" where
  "verify_session = verify_session_flag SECURITY_ENABLED"

definition StartSessionResource_post ::
  "request \<Rightarrow> state \<Rightarrow> string \<Rightarrow> state \<times> (string \<times> string) list response" where
  "StartSessionResource_post req st session_id =
     (let data = get_json req;
          (key, st') = start_session st session_id
      in (st', Response [(''session_key'', key)]))"

subsection \<open>Buckets and events\<close>

definition BucketResource_get ::
  "request \<Rightarrow> state \<Rightarrow> string \<Rightarrow> error + (string \<times> string) list response" where
  "BucketResource_get req st bucket_id =
     (case db_getitem (db st) bucket_id of
        Inl err \<Rightarrow> Inl err
      | Inr b \<Rightarrow> Inr (Response (Bucket_metadata b)))"

definition BucketResource_post :: "request \<Rightarrow> state \<Rightarrow> string \<Rightarrow> error + unit response" where
  "BucketResource_post req st bucket_id = Inl NotImplementedError"

definition EventResource_get :: "request \<Rightarrow> state \<Rightarrow> string \<Rightarrow> error + event list response" where
  "EventResource_get req st bucket_id =
     (case db_getitem (db st) bucket_id of
        Inl err \<Rightarrow> Inl err
      | Inr b \<Rightarrow> Inr (Response (Bucket_get b)))"

text \<open>
  The loop of \<^verbatim>\<open>EventResource.post\<close> over a list: each round looks the bucket up and
  inserts one event. An exception leaves the state as the rounds before it made it.
\<close>

fun insert_each :: "state \<Rightarrow> string \<Rightarrow> event list \<Rightarrow> state \<times> (error + unit)" where
  "insert_each st bucket_id [] = (st, Inr ())"
| "insert_each st bucket_id (e # es) =
     (case db_getitem (db st) bucket_id of
        Inl err \<Rightarrow> (st, Inl err)
      | Inr b \<Rightarrow> insert_each (st\<lparr>db := (db st)(bucket_id \<mapsto> Bucket_insert e b)\<rparr>) bucket_id es)"

text \<open>
  \<^verbatim>\<open>EventResource.post\<close>: the three branches are those of \<^verbatim>\<open>isinstance(data, dict)\<close>,
  \<^verbatim>\<open>isinstance(data, list)\<close> and the \<^verbatim>\<open>else\<close>.
\<close>

definition EventResource_post ::
  "request \<Rightarrow> state \<Rightarrow> string \<Rightarrow> state \<times> (error + (string \<times> string) list response)" where
  "EventResource_post req st bucket_id =
     (case get_json req of
        JDict e \<Rightarrow>
          (case db_getitem (db st) bucket_id of
             Inl err \<Rightarrow> (st, Inl err)
           | Inr b \<Rightarrow>
               (st\<lparr>db := (db st)(bucket_id \<mapsto> Bucket_insert e b)\<rparr>,
                Inr (ResponseStatus [] 200)))
      | JList es \<Rightarrow>
          (case insert_each st bucket_id es of
             (st', Inl err) \<Rightarrow> (st', Inl err)
           | (st', Inr _) \<Rightarrow> (st', Inr (ResponseStatus [] 200)))
      | _ \<Rightarrow> (st, Inr (ResponseStatus [] 500)))"

subsection \<open>Heartbeats\<close>

text \<open>
  flask calls the method of a resource with the variables of its URL rule as keyword
  arguments. Python binds a keyword argument to the parameter of that name; a method
  that has no parameter of that name raises \<^verbatim>\<open>TypeError\<close> before its body runs.
  \<open>call_view url_variable parameter method v\<close> is the call of a method with the one
  parameter \<open>parameter\<close>, for a rule with the one variable \<open>url_variable\<close> of value \<open>v\<close>.
\<close>

definition call_view :: "string \<Rightarrow> string \<Rightarrow> (string \<Rightarrow> 'a) \<Rightarrow> string \<Rightarrow> error + 'a" where
  "call_view url_variable parameter method v =
     (if url_variable = parameter then Inr (method v) else Inl TypeError)"

text \<open>
  The bodies of \<^verbatim>\<open>HeartbeatResource.get\<close> and \<^verbatim>\<open>HeartbeatResource.post\<close>: what the methods
  do once they are called with a \<^verbatim>\<open>client_name\<close>. \<open>now\<close> is the value of
  \<^verbatim>\<open>datetime.now()\<close> at the call.
\<close>

definition HeartbeatResource_get_body :: "request \<Rightarrow> state \<Rightarrow> string \<Rightarrow> string response" where
  "HeartbeatResource_get_body req st client_name =
     (case heartbeats st client_name of
        Some t \<Rightarrow> Response (isoformat t)
      | None \<Rightarrow> Response ''No heartbeat has been received for this client'')"

definition HeartbeatResource_post_body ::
  "datetime \<Rightarrow> request \<Rightarrow> state \<Rightarrow> string \<Rightarrow> state \<times> string response" where
  "HeartbeatResource_post_body now req st client_name =
     (st\<lparr>heartbeats := (heartbeats st)(client_name \<mapsto> now)\<rparr>, ResponseStatus ''success'' 200)"

text \<open>
  GET and POST on the heartbeat endpoint. The rule of the resource is
  \<^verbatim>\<open>/api/0/heartbeat/<string:session_id>\<close>, so a request calls the method with the keyword
  argument \<^verbatim>\<open>session_id\<close>, and the methods are \<^verbatim>\<open>get(self, client_name)\<close> and
  \<^verbatim>\<open>post(self, client_name)\<close>. The rules of the other resources name their variable as
  the methods name their parameter (\<^verbatim>\<open>session_id\<close>, \<^verbatim>\<open>bucket_id\<close>), and their calls are
  the methods above.
\<close>

definition HeartbeatResource_get :: "request \<Rightarrow> state \<Rightarrow> string \<Rightarrow> error + string response" where
  "HeartbeatResource_get req st session_id =
     call_view ''session_id'' ''client_name'' (HeartbeatResource_get_body req st) session_id"

definition HeartbeatResource_post ::
  "datetime \<Rightarrow> request \<Rightarrow> state \<Rightarrow> string \<Rightarrow> state \<times> (error + string response)" where
  "HeartbeatResource_post now req st session_id =
     (case call_view ''session_id'' ''client_name'' (HeartbeatResource_post_body now req st)
             session_id of
        Inl err \<Rightarrow> (st, Inl err)
      | Inr (st', r) \<Rightarrow> (st', Inr r))"

subsection \<open>What the theorems speak of\<close>

definition is_hexdigit :: "char \<Rightarrow> bool" where
  "is_hexdigit c = (c \<in> set ''0123456789abcdef'')"

text \<open>
  \<open>same_event x y\<close>: the stored event \<open>x\<close> is the posted event \<open>y\<close>, with an id
  assigned if \<open>y\<close> had none.
\<close>

definition same_event :: "event \<Rightarrow> event \<Rightarrow> bool" where
  "same_event x y =
     (timestamp x = timestamp y \<and> duration x = duration y \<and> event_data x = event_data y
      \<and> (case event_id y of None \<Rightarrow> event_id x \<noteq> None | Some i \<Rightarrow> event_id x = Some i))"

text \<open>
  The inputs of \<^verbatim>\<open>tests/test_client.py\<close>: \<^verbatim>\<open>_create_periodic_events\<close> and the events of
  \<^verbatim>\<open>_create_heartbeat_events\<close>, a bucket as the fixture creates it, and requests that
  carry them.
\<close>

definition create_periodic_events :: "nat \<Rightarrow> int \<Rightarrow> int \<Rightarrow> event list" where
  "create_periodic_events num_events start delta =
     map (\<lambda>i. \<lparr>event_id = None, timestamp = start + int i * delta, duration = 0,
               event_data = [(''label'', SStr ''test'')]\<rparr>) [0..<num_events]"

definition heartbeat_event :: "int \<Rightarrow> event" where
  "heartbeat_event t =
     \<lparr>event_id = None, timestamp = t, duration = 0, event_data = [(''label'', SStr ''test'')]\<rparr>"

definition heartbeat_request :: "int \<Rightarrow> string \<Rightarrow> request" where
  "heartbeat_request t pulsetime =
     \<lparr>get_json = JDict (heartbeat_event t), args = [(''pulsetime'', pulsetime)]\<rparr>"

definition range_request :: request where
  "range_request =
     \<lparr>get_json = JNull,
      args = [(''limit'', ''50''), (''start'', ''2016-05-01T00:00:00+00:00''),
              (''end'', ''2016-05-02T00:00:00+00:00'')]\<rparr>"

definition unbounded_request :: request where
  "unbounded_request = \<lparr>get_json = JNull, args = [(''limit'', ''-1'')]\<rparr>"

definition events_request :: "json \<Rightarrow> request" where
  "events_request j = \<lparr>get_json = j, args = []\<rparr>"

definition clock :: "nat \<Rightarrow> datetime" where
  "clock s = \<lparr>year = 2016, month = 5, day = 1, hour = 12, minute = 0, second = s,
              microsecond = 0\<rparr>"

definition test_bucket :: bucket where
  "test_bucket = \<lparr>b_id = ''test-1'', event_type = ''testevents'', events = []\<rparr>"

definition test_state :: state where
  "test_state =
     \<lparr>sessions = Map.empty, db = [''test-1'' \<mapsto> test_bucket], heartbeats = Map.empty,
      entropy = (\<lambda>i. of_nat (7 * i + 3))\<rparr>"

definition hour_ms :: int where
  "hour_ms = 3600000"

definition stored_bucket :: bucket where
  "stored_bucket =
     \<lparr>b_id = ''test-2'', event_type = ''testevents'',
      events = [heartbeat_event 2000, heartbeat_event 3000, heartbeat_event 1000]\<rparr>"

definition stored_state :: state where
  "stored_state = test_state\<lparr>db := [''test-2'' \<mapsto> stored_bucket]\<rparr>"

text \<open>The number of events a GET of the events answers with, or its exception.\<close>

definition events_count :: "error + event list response \<Rightarrow> error + nat" where
  "events_count r = map_sum id (length \<circ> body) r"

section \<open>Properties\<close>

subsection \<open>Auxiliary facts\<close>

lemma hexdigit_is_hexdigit: "is_hexdigit (hexdigit n)"
  unfolding is_hexdigit_def hexdigit_def by (rule nth_mem) simp

lemma length_hexlify: "length (hexlify bs) = 2 * length bs"
  by (induction bs) simp_all

lemma hexlify_all_hex: "list_all is_hexdigit (hexlify bs)"
  by (induction bs) (simp_all add: hexdigit_is_hexdigit)

lemma hexdigit_inj: "m < 16 \<Longrightarrow> n < 16 \<Longrightarrow> hexdigit m = hexdigit n \<Longrightarrow> m = n"
proof -
  assume m: "m < 16" and n: "n < 16" and e: "hexdigit m = hexdigit n"
  have "distinct ''0123456789abcdef''" by simp
  moreover have "m < length ''0123456789abcdef''" "n < length ''0123456789abcdef''"
    using m n by simp_all
  ultimately show "m = n"
    using e m n unfolding hexdigit_def by (simp only: nth_eq_iff_index_eq mod_less)
qed

lemma byte_digits_inj:
  fixes a b :: "8 word"
  assumes "hexdigit (unat a div 16) = hexdigit (unat b div 16)"
    and "hexdigit (unat a) = hexdigit (unat b)"
  shows "a = b"
proof -
  have la: "unat a < 256" and lb: "unat b < 256"
    using unsigned_less [of a] unsigned_less [of b] by simp_all
  have "unat a div 16 = unat b div 16"
    using assms(1) la lb by (intro hexdigit_inj) auto
  moreover have "hexdigit (unat a mod 16) = hexdigit (unat b mod 16)"
    using assms(2) by (simp add: hexdigit_def)
  then have "unat a mod 16 = unat b mod 16"
    by (intro hexdigit_inj) auto
  ultimately have "unat a = unat b"
    by (metis div_mult_mod_eq)
  then show ?thesis by (simp add: word_unat_eq_iff)
qed

lemma hexlify_eq_iff: "hexlify xs = hexlify ys \<longleftrightarrow> xs = ys"
proof (induction xs arbitrary: ys)
  case Nil
  then show ?case by (cases ys) simp_all
next
  case (Cons x xs)
  then show ?case by (cases ys) (auto dest: byte_digits_inj)
qed

lemma inj_hexlify: "inj hexlify"
  by (rule injI) (simp add: hexlify_eq_iff)

lemma insert_each_Some:
  "db st bucket_id = Some b \<Longrightarrow>
   insert_each st bucket_id es
     = (st\<lparr>db := (db st)(bucket_id \<mapsto> fold Bucket_insert es b)\<rparr>, Inr ())"
proof (induction es arbitrary: st b)
  case Nil
  then show ?case by (simp add: fun_upd_idem)
next
  case (Cons e es)
  let ?st = "st\<lparr>db := (db st)(bucket_id \<mapsto> Bucket_insert e b)\<rparr>"
  let ?b = "fold Bucket_insert es (Bucket_insert e b)"
  have "db ?st bucket_id = Some (Bucket_insert e b)" by simp
  then have "insert_each ?st bucket_id es = (?st\<lparr>db := (db ?st)(bucket_id \<mapsto> ?b)\<rparr>, Inr ())"
    by (rule Cons.IH)
  moreover have "?st\<lparr>db := (db ?st)(bucket_id \<mapsto> ?b)\<rparr> = st\<lparr>db := (db st)(bucket_id \<mapsto> ?b)\<rparr>"
    by simp
  moreover have "insert_each st bucket_id (e # es) = insert_each ?st bucket_id es"
    using Cons.prems by (simp add: db_getitem_def)
  moreover have "fold Bucket_insert (e # es) b = ?b"
    by simp
  ultimately show ?case by (simp only:)
qed

lemma same_event_stored: "same_event (stored_event xs e) e"
  by (simp add: same_event_def stored_event_def split: option.splits)

lemma events_fold_insert:
  "\<exists>new. events (fold Bucket_insert es b) = events b @ new \<and> list_all2 same_event new es"
proof (induction es arbitrary: b)
  case Nil
  then show ?case by simp
next
  case (Cons e es)
  obtain new where new: "events (fold Bucket_insert es (Bucket_insert e b))
      = events (Bucket_insert e b) @ new" "list_all2 same_event new es"
    using Cons.IH by blast
  have "events (fold Bucket_insert (e # es) b) = events b @ (stored_event (events b) e # new)"
    using new(1) by (simp add: Bucket_insert_def)
  moreover have "list_all2 same_event (stored_event (events b) e # new) (e # es)"
    using new(2) by (simp add: same_event_stored)
  ultimately show ?case by blast
qed

lemma same_event_timestamps:
  "list_all2 same_event new es \<Longrightarrow> map timestamp new = map timestamp es"
  by (induction rule: list_all2_induct) (simp_all add: same_event_def)

lemma Bucket_get_mset: "mset (Bucket_get b) = mset (events b)"
  by (simp add: Bucket_get_def)

lemma Bucket_get_length: "length (Bucket_get b) = length (events b)"
  by (simp add: Bucket_get_def)

lemma Bucket_get_sorted: "sorted_wrt (\<lambda>x y. timestamp x \<ge> timestamp y) (Bucket_get b)"
proof -
  have "sorted (map (\<lambda>e. - timestamp e) (Bucket_get b))"
    by (simp add: Bucket_get_def)
  then show ?thesis
    by (simp add: sorted_map)
qed

lemma sort_desc_ascending:
  assumes "sorted (map timestamp xs)" "distinct (map timestamp xs)"
  shows "map timestamp (sort_key (\<lambda>e. - timestamp e) xs) = rev (map timestamp xs)"
proof -
  let ?r = "sort_key (\<lambda>e. - timestamp e) xs"
  have "sorted (map (\<lambda>e. - timestamp e) ?r)" by simp
  then have "sorted (rev (map timestamp ?r))"
    by (simp add: sorted_map sorted_wrt_rev sorted_wrt_map)
  moreover have "mset (rev (map timestamp ?r)) = mset (map timestamp xs)" by simp
  moreover have "distinct (rev (map timestamp ?r))"
    using assms(2) calculation(2) by (metis mset_eq_imp_distinct_iff)
  ultimately have "rev (map timestamp ?r) = map timestamp xs"
    using assms by (metis sorted_distinct_set_unique mset_eq_setD)
  then show ?thesis by (metis rev_rev_ident)
qed

lemma periodic_timestamps:
  "map timestamp (create_periodic_events n start delta) = map (\<lambda>i. start + int i * delta) [0..<n]"
  by (simp add: create_periodic_events_def comp_def)

lemma periodic_sorted:
  "0 < delta \<Longrightarrow> sorted (map (\<lambda>i. start + int i * delta) [0..<n])
      \<and> distinct (map (\<lambda>i. start + int i * delta) [0..<n])"
  by (auto simp: sorted_map sorted_wrt_iff_nth_less distinct_map inj_on_def)

lemma post_periodic_then_get:
  assumes "db st bucket_id = Some b" "events b = []" "0 < delta"
  shows "map_sum id (map timestamp \<circ> body)
           (EventResource_get req
              (fst (EventResource_post
                      \<lparr>get_json = JList (create_periodic_events n start delta), args = a\<rparr>
                      st bucket_id)) bucket_id)
         = Inr (rev (map (\<lambda>i. start + int i * delta) [0..<n]))"
proof -
  let ?es = "create_periodic_events n start delta"
  let ?b = "fold Bucket_insert ?es b"
  have post: "fst (EventResource_post \<lparr>get_json = JList ?es, args = a\<rparr> st bucket_id)
      = st\<lparr>db := (db st)(bucket_id \<mapsto> ?b)\<rparr>"
    using insert_each_Some [OF assms(1), of ?es] by (simp add: EventResource_post_def)
  obtain new where new: "events ?b = events b @ new" "list_all2 same_event new ?es"
    using events_fold_insert by blast
  have ts: "map timestamp (events ?b) = map (\<lambda>i. start + int i * delta) [0..<n]"
    using new assms(2) by (simp add: same_event_timestamps periodic_timestamps)
  have "map timestamp (Bucket_get ?b) = rev (map timestamp (events ?b))"
    unfolding Bucket_get_def using periodic_sorted [OF assms(3), of start n]
    by (intro sort_desc_ascending) (simp_all only: ts)
  then show ?thesis
    by (simp add: post EventResource_get_def db_getitem_def ts)
qed

subsection \<open>Session keys\<close>

text \<open>
  C8. The key \<^verbatim>\<open>start_session\<close> returns is the hexadecimal encoding of the next 24
  bytes of the system's random source, which are used up by the call (the next key
  encodes the 24 bytes after them); the encoding maps different bytes to different
  keys, so two keys are equal exactly when their 24 bytes are; the key is 48
  characters long, each a hexadecimal digit; the session map holds it under the
  session id, the other sessions stay, and the handler answers with the key under
  \<^verbatim>\<open>"session_key"\<close>.
\<close>

theorem start_session_key:
  "fst (start_session st session_id) = hexlify (fst (os_urandom 24 st))
   \<and> length (fst (os_urandom 24 st)) = 24
   \<and> inj hexlify
   \<and> length (fst (start_session st session_id)) = 48
   \<and> list_all is_hexdigit (fst (start_session st session_id))
   \<and> sessions (snd (start_session st session_id)) session_id
       = Some \<lparr>session_key = fst (start_session st session_id)\<rparr>
   \<and> snd (StartSessionResource_post req st session_id)
       = Response [(''session_key'', fst (start_session st session_id))]
   \<and> fst (StartSessionResource_post req st session_id) = snd (start_session st session_id)
   \<and> fst (start_session st session_id) = hexlify (map (entropy st) [0..<24])
   \<and> entropy (snd (start_session st session_id)) = (\<lambda>i. entropy st (i + 24))
   \<and> fst (start_session (snd (start_session st session_id)) session_id')
       = hexlify (map (entropy st) [24..<48])
   \<and> (fst (start_session st session_id) = fst (start_session st' session_id')
        \<longleftrightarrow> map (entropy st) [0..<24] = map (entropy st') [0..<24])
   \<and> sessions (snd (start_session st session_id))
       = (sessions st)(session_id \<mapsto> \<lparr>session_key = hexlify (map (entropy st) [0..<24])\<rparr>)
   \<and> db (snd (start_session st session_id)) = db st
   \<and> heartbeats (snd (start_session st session_id)) = heartbeats st"
proof -
  have k: "fst (start_session st session_id) = hexlify (map (entropy st) [0..<24])" for st session_id
    by (simp add: start_session_def os_urandom_def Let_def)
  have e: "entropy (snd (start_session st session_id)) = (\<lambda>i. entropy st (i + 24))"
    by (simp add: start_session_def os_urandom_def Let_def)
  have "map (\<lambda>i. entropy st (i + 24)) [0..<24] = map (entropy st) (map (\<lambda>i. i + 24) [0..<24])"
    by (simp add: comp_def)
  also have "map (\<lambda>i. i + 24) [0..<24] = [24..<48]"
    by (simp add: map_add_upt)
  finally have n: "fst (start_session (snd (start_session st session_id)) session_id')
      = hexlify (map (entropy st) [24..<48])"
    by (simp add: k e)
  have q: "fst (start_session st session_id) = fst (start_session st' session_id')
      \<longleftrightarrow> map (entropy st) [0..<24] = map (entropy st') [0..<24]"
    by (simp only: k hexlify_eq_iff)
  have r: "fst (start_session st session_id) = hexlify (fst (os_urandom 24 st))
      \<and> length (fst (os_urandom 24 st)) = 24
      \<and> inj hexlify
      \<and> length (fst (start_session st session_id)) = 48
      \<and> list_all is_hexdigit (fst (start_session st session_id))
      \<and> sessions (snd (start_session st session_id)) session_id
          = Some \<lparr>session_key = fst (start_session st session_id)\<rparr>
      \<and> snd (StartSessionResource_post req st session_id)
          = Response [(''session_key'', fst (start_session st session_id))]
      \<and> fst (StartSessionResource_post req st session_id) = snd (start_session st session_id)"
    by (simp add: start_session_def StartSessionResource_post_def os_urandom_def Let_def
        length_hexlify hexlify_all_hex inj_hexlify)
  have m: "sessions (snd (start_session st session_id))
        = (sessions st)(session_id \<mapsto> \<lparr>session_key = hexlify (map (entropy st) [0..<24])\<rparr>)
      \<and> db (snd (start_session st session_id)) = db st
      \<and> heartbeats (snd (start_session st session_id)) = heartbeats st"
    by (simp add: start_session_def os_urandom_def Let_def)
  from r k [of st session_id] e n q m show ?thesis
    by blast
qed

text \<open>
  C9. With \<^verbatim>\<open>SECURITY_ENABLED\<close> as the module sets it, \<^verbatim>\<open>verify_session\<close> is true for
  every session id and key, the same for any two states, ids and keys. With the
  flag set, it is true exactly when the session map holds the session id with the
  given key.
\<close>

theorem verify_session_disabled:
  "verify_session st session_id key
   \<and> verify_session st session_id key = verify_session st' session_id' key'
   \<and> verify_session_flag False st session_id key
   \<and> verify_session_flag True st session_id key
       = (sessions st session_id = Some \<lparr>session_key = key\<rparr>)"
  by (auto simp: verify_session_def verify_session_flag_def SECURITY_ENABLED_def
      split: option.splits)

subsection \<open>Heartbeats\<close>

text \<open>
  C10, at any client and state. The rule of the heartbeat resource hands the methods
  a keyword \<^verbatim>\<open>session_id\<close> that they do not take: every GET and every POST on the
  endpoint raises \<^verbatim>\<open>TypeError\<close> and leaves the state as it was, so neither the string
  for a client without heartbeat nor \<^verbatim>\<open>"success", 200\<close> is returned and \<^verbatim>\<open>heartbeats\<close> is
  never written. The bodies of the methods, were they reached, do what the spec
  says: the GET answers a client without entry with the string, and the POST sets
  the client's entry to the time of the call and returns \<^verbatim>\<open>"success", 200\<close>.
\<close>

theorem heartbeat_route_TypeError:
  "HeartbeatResource_get req st session_id = Inl TypeError
   \<and> HeartbeatResource_post now req st session_id = (st, Inl TypeError)
   \<and> HeartbeatResource_get_body (events_request JNull) test_state ''client-test''
       = Response ''No heartbeat has been received for this client''
   \<and> HeartbeatResource_post_body now req st client_name
       = (st\<lparr>heartbeats := (heartbeats st)(client_name \<mapsto> now)\<rparr>, ResponseStatus ''success'' 200)"
  by (simp add: HeartbeatResource_get_def HeartbeatResource_post_def call_view_def
      HeartbeatResource_get_body_def HeartbeatResource_post_body_def test_state_def)

text \<open>
  C1, at the input of \<^verbatim>\<open>test_heartbeat\<close>: two heartbeats with equal data, one second
  apart, the second with a pulsetime of ten seconds, for a bucket without events.
  Both calls raise \<^verbatim>\<open>TypeError\<close> and leave the state as it was; the bucket has no
  event afterwards, where the spec and the test have one event with the first
  timestamp and the duration of one second. The bodies of the methods, called one
  after the other, leave the bucket without event as well.
\<close>

theorem heartbeat_merge_test_input:
  "HeartbeatResource_post (clock 0) (heartbeat_request 1000 ''0'') test_state ''test-1''
     = (test_state, Inl TypeError)
   \<and> HeartbeatResource_post (clock 1) (heartbeat_request 2000 ''10'') test_state ''test-1''
     = (test_state, Inl TypeError)
   \<and> map_option events (db test_state ''test-1'') = Some []
   \<and> map_option events
       (db (fst (HeartbeatResource_post_body (clock 1) (heartbeat_request 2000 ''10'')
                   (fst (HeartbeatResource_post_body (clock 0) (heartbeat_request 1000 ''0'')
                           test_state ''test-1'')) ''test-1'')) ''test-1'')
     = Some []"
proof -
  have "map_option events (db test_state ''test-1'') = Some []"
    by (simp add: test_state_def test_bucket_def)
  then show ?thesis
    by (simp add: HeartbeatResource_post_def call_view_def HeartbeatResource_post_body_def)
qed





subsection \<open>Buckets and events\<close>

text \<open>
  C7. A POST to the events of an existing bucket: with a dict as body, the event is
  appended to the bucket (with an id if it had none) and the call returns status
  200; with a list, every element is appended, in the order of the list, and the call
  returns 200; with any other body (and whatever the bucket), the state stays as
  it was and the call returns 500. The events that were in the bucket stay as they
  were and each posted event becomes an event of its own: nothing is merged.
\<close>

theorem events_post_shapes:
  assumes "db st bucket_id = Some b"
  shows "(get_json req = JDict e \<longrightarrow>
            EventResource_post req st bucket_id
              = (st\<lparr>db := (db st)(bucket_id \<mapsto> b\<lparr>events := events b @ [stored_event (events b) e]\<rparr>)\<rparr>,
                 Inr (ResponseStatus [] 200))
            \<and> same_event (stored_event (events b) e) e)
       \<and> (get_json req = JList es \<longrightarrow>
            EventResource_post req st bucket_id
              = (st\<lparr>db := (db st)(bucket_id \<mapsto> fold Bucket_insert es b)\<rparr>, Inr (ResponseStatus [] 200))
            \<and> (\<exists>new. events (fold Bucket_insert es b) = events b @ new
                  \<and> list_all2 same_event new es))
       \<and> (\<not> isinstance_dict (get_json req) \<and> \<not> isinstance_list (get_json req) \<longrightarrow>
            EventResource_post req st' bucket_id' = (st', Inr (ResponseStatus [] 500)))"
proof (intro conjI impI)
  assume "get_json req = JDict e"
  then show "EventResource_post req st bucket_id
      = (st\<lparr>db := (db st)(bucket_id \<mapsto> b\<lparr>events := events b @ [stored_event (events b) e]\<rparr>)\<rparr>,
         Inr (ResponseStatus [] 200))"
    using assms by (simp add: EventResource_post_def db_getitem_def Bucket_insert_def)
next
  show "same_event (stored_event (events b) e) e" by (rule same_event_stored)
next
  assume "get_json req = JList es"
  then show "EventResource_post req st bucket_id
      = (st\<lparr>db := (db st)(bucket_id \<mapsto> fold Bucket_insert es b)\<rparr>, Inr (ResponseStatus [] 200))"
    using insert_each_Some [OF assms, of es] by (simp add: EventResource_post_def)
next
  show "\<exists>new. events (fold Bucket_insert es b) = events b @ new \<and> list_all2 same_event new es"
    by (rule events_fold_insert)
next
  assume "\<not> isinstance_dict (get_json req) \<and> \<not> isinstance_list (get_json req)"
  then show "EventResource_post req st' bucket_id' = (st', Inr (ResponseStatus [] 500))"
    by (cases "get_json req") (simp_all add: EventResource_post_def)
qed

theorem events_post_shapes_witness:
  "db test_state ''test-1'' = Some test_bucket
   \<and> snd (EventResource_post (events_request (JList [heartbeat_event 1000, heartbeat_event 1000]))
            test_state ''test-1'') = Inr (ResponseStatus [] 200)
   \<and> map_option events
       (db (fst (EventResource_post
                   (events_request (JList [heartbeat_event 1000, heartbeat_event 1000]))
                   test_state ''test-1'')) ''test-1'')
       = Some [(heartbeat_event 1000)\<lparr>event_id := Some 0\<rparr>,
               (heartbeat_event 1000)\<lparr>event_id := Some 1\<rparr>]
   \<and> snd (EventResource_post (events_request (JDict (heartbeat_event 1000)))
            test_state ''test-1'') = Inr (ResponseStatus [] 200)
   \<and> EventResource_post (events_request (JStr ''event'')) test_state ''test-1''
       = (test_state, Inr (ResponseStatus [] 500))"
proof -
  have h: "db test_state ''test-1'' = Some test_bucket"
    by (simp add: test_state_def)
  let ?l = "[heartbeat_event 1000, heartbeat_event 1000]"
  have f: "events (Bucket_insert (heartbeat_event 1000)
                  (Bucket_insert (heartbeat_event 1000) test_bucket))
      = [(heartbeat_event 1000)\<lparr>event_id := Some 0\<rparr>,
         (heartbeat_event 1000)\<lparr>event_id := Some (Suc 0)\<rparr>]"
    by (simp add: Bucket_insert_def stored_event_def fresh_id_def test_bucket_def
        heartbeat_event_def)
  show ?thesis
    using h
      events_post_shapes [OF h, of "events_request (JList ?l)" _ ?l]
      events_post_shapes [OF h, of "events_request (JDict (heartbeat_event 1000))"
        "heartbeat_event 1000"]
      events_post_shapes [OF h, of "events_request (JStr ''event'')" _ _ test_state "''test-1''"]
    by (simp add: events_request_def f)
qed

text \<open>
  C6, as the handlers have it. On a bucket id that the datastore does not know, the
  GET of the bucket's metadata, the GET of its events and the POST of an event or of
  a list with at least one event fail with \<^verbatim>\<open>NotFound\<close>, and the POST leaves the state
  as it was.
\<close>

theorem unknown_bucket_NotFound:
  assumes "db st bucket_id = None"
  shows "BucketResource_get req st bucket_id = Inl NotFound
       \<and> EventResource_get req st bucket_id = Inl NotFound
       \<and> (get_json req = JDict e \<longrightarrow> EventResource_post req st bucket_id = (st, Inl NotFound))
       \<and> (get_json req = JList (e # es) \<longrightarrow>
            EventResource_post req st bucket_id = (st, Inl NotFound))"
  using assms
  by (simp add: BucketResource_get_def EventResource_get_def EventResource_post_def
      db_getitem_def)

theorem unknown_bucket_NotFound_witness:
  "db test_state ''no-such-bucket'' = None
   \<and> BucketResource_get range_request test_state ''no-such-bucket'' = Inl NotFound
   \<and> EventResource_get range_request test_state ''no-such-bucket'' = Inl NotFound
   \<and> EventResource_post (events_request (JDict (heartbeat_event 1000))) test_state
        ''no-such-bucket'' = (test_state, Inl NotFound)
   \<and> EventResource_post (events_request (JList [heartbeat_event 1000, heartbeat_event 2000]))
        test_state ''no-such-bucket'' = (test_state, Inl NotFound)"
proof -
  have h: "db test_state ''no-such-bucket'' = None"
    by (simp add: test_state_def)
  show ?thesis
    using h
      unknown_bucket_NotFound [OF h, of range_request]
      unknown_bucket_NotFound [OF h, of "events_request (JDict (heartbeat_event 1000))"
        "heartbeat_event 1000"]
      unknown_bucket_NotFound [OF h,
        of "events_request (JList [heartbeat_event 1000, heartbeat_event 2000])"
        "heartbeat_event 1000" "[heartbeat_event 2000]"]
    by (simp add: events_request_def)
qed

text \<open>
  Not every operation fails with \<^verbatim>\<open>NotFound\<close> on an unknown id, as C6 has it in the
  spec: a POST of events with an empty list answers 200 and one with a scalar 500,
  neither looks the bucket up.
\<close>

theorem unknown_bucket_counterexample:
  "db test_state ''no-such-bucket'' = None
   \<and> EventResource_post (events_request (JList [])) test_state ''no-such-bucket''
       = (test_state, Inr (ResponseStatus [] 200))
   \<and> EventResource_post (events_request JNull) test_state ''no-such-bucket''
       = (test_state, Inr (ResponseStatus [] 500))"
proof -
  have "db test_state ''no-such-bucket'' = None"
    by (simp add: test_state_def)
  then show ?thesis
    by (simp add: EventResource_post_def events_request_def)
qed

text \<open>
  C5. For every bucket of the datastore, a GET of its events, whatever the request
  carries (so also with \<^verbatim>\<open>limit=-1\<close>), answers with every event stored in the bucket
  (the same multiset, the same number), sorted by timestamp descending.
\<close>

theorem events_get_all:
  assumes "db st bucket_id = Some b"
  shows "EventResource_get req st bucket_id = Inr (Response (Bucket_get b))
       \<and> mset (Bucket_get b) = mset (events b)
       \<and> length (Bucket_get b) = length (events b)
       \<and> sorted_wrt (\<lambda>x y. timestamp x \<ge> timestamp y) (Bucket_get b)"
  using assms
  by (simp add: EventResource_get_def db_getitem_def Bucket_get_mset Bucket_get_sorted
      Bucket_get_length)

theorem events_get_all_witness:
  "db stored_state ''test-2'' = Some stored_bucket
   \<and> EventResource_get unbounded_request stored_state ''test-2''
       = Inr (Response [heartbeat_event 3000, heartbeat_event 2000, heartbeat_event 1000])"
proof -
  have h: "db stored_state ''test-2'' = Some stored_bucket"
    by (simp add: stored_state_def)
  have "Bucket_get stored_bucket
      = [heartbeat_event 3000, heartbeat_event 2000, heartbeat_event 1000]"
    by (simp add: Bucket_get_def stored_bucket_def heartbeat_event_def)
  then show ?thesis
    using h events_get_all [OF h, of unbounded_request] by simp
qed

text \<open>
  C4, at the input of \<^verbatim>\<open>test_get_events_interval\<close>: 1000 events an hour apart, posted
  to a bucket without events, and a query with a range of one day and limit 50.
  \<^verbatim>\<open>EventResource.get\<close> reads neither range nor limit and answers with the bucket's
  \<^verbatim>\<open>get()\<close> called without arguments: with 1000 events, where the spec and the test
  have 25, and with what a query without range and with \<^verbatim>\<open>limit=-1\<close> is answered with.
\<close>

theorem range_query_test_input:
  "events_count
     (EventResource_get range_request
        (fst (EventResource_post
                (events_request (JList (create_periodic_events 1000 1462060800000 hour_ms)))
                test_state ''test-1'')) ''test-1'')
   = Inr 1000
   \<and> EventResource_get range_request
        (fst (EventResource_post
                (events_request (JList (create_periodic_events 1000 1462060800000 hour_ms)))
                test_state ''test-1'')) ''test-1''
     = EventResource_get unbounded_request
        (fst (EventResource_post
                (events_request (JList (create_periodic_events 1000 1462060800000 hour_ms)))
                test_state ''test-1'')) ''test-1''"
proof -
  let ?es = "create_periodic_events 1000 1462060800000 hour_ms"
  have h: "db test_state ''test-1'' = Some test_bucket"
    by (simp add: test_state_def)
  have e: "events test_bucket = [] \<and> 0 < hour_ms"
    by (simp add: test_bucket_def hour_ms_def)
  have "map_sum id (map timestamp \<circ> body)
       (EventResource_get range_request
          (fst (EventResource_post (events_request (JList ?es)) test_state ''test-1'')) ''test-1'')
     = Inr (rev (map (\<lambda>i. 1462060800000 + int i * hour_ms) [0..<1000]))"
    unfolding events_request_def using e by (intro post_periodic_then_get [OF h]) simp_all
  then have "map_sum id (length \<circ> map timestamp \<circ> body)
       (EventResource_get range_request
          (fst (EventResource_post (events_request (JList ?es)) test_state ''test-1'')) ''test-1'')
     = Inr 1000"
    by (cases "EventResource_get range_request
          (fst (EventResource_post (events_request (JList ?es)) test_state ''test-1'')) ''test-1''")
      auto
  then have "events_count
       (EventResource_get range_request
          (fst (EventResource_post (events_request (JList ?es)) test_state ''test-1'')) ''test-1'')
     = Inr 1000"
    by (simp add: events_count_def comp_def)
  moreover have "EventResource_get range_request
          (fst (EventResource_post (events_request (JList ?es)) test_state ''test-1'')) ''test-1''
     = EventResource_get unbounded_request
          (fst (EventResource_post (events_request (JList ?es)) test_state ''test-1'')) ''test-1''"
    by (simp add: EventResource_get_def)
  ultimately show ?thesis
    by (simp only: simp_thms)
qed

end
